theory Spec2Isabelle
  imports
    Main
    "HOL-Library.Multiset"
    "HOL-Library.Char_ord"
    "HOL-Library.List_Lexorder"
    "HOL-Library.Sublist"
begin

section \<open>Strings and the JavaScript string primitives used by server.js\<close>

text \<open>
  JavaScript strings are modelled as \<^typ>\<open>string\<close>, restricted to ASCII: one \<^typ>\<open>char\<close>
  per code unit. Beyond ASCII the primitives below are not those of JavaScript, which
  also lower-cases the letters of Latin-1 and counts U+00A0 as whitespace. On such strings the default comparison of \<^verbatim>\<open>Array.prototype.sort\<close>
  (code units, lexicographically, a proper prefix first) is the order of
  \<^typ>\<open>string\<close> given by the lexicographic order on lists over the order on characters.

  A value that JavaScript treats as \<^verbatim>\<open>null\<close> or \<^verbatim>\<open>undefined\<close> is \<open>None\<close>.
  An exception is a value of \<open>js_error\<close> on the left of a sum.
\<close>

datatype js_error = TypeError

definition is_upper :: "char \<Rightarrow> bool" where
  "is_upper c = (CHR ''A'' \<le> c \<and> c \<le> CHR ''Z'')"

definition is_lower :: "char \<Rightarrow> bool" where
  "is_lower c = (CHR ''a'' \<le> c \<and> c \<le> CHR ''z'')"

definition is_digit :: "char \<Rightarrow> bool" where
  "is_digit c = (CHR ''0'' \<le> c \<and> c \<le> CHR ''9'')"

text \<open>The class \<^verbatim>\<open>\s\<close> on ASCII: TAB, LF, VT, FF, CR and SPACE.\<close>

definition is_space :: "char \<Rightarrow> bool" where
  "is_space c = (c = CHR '' '' \<or> (CHR 0x09 \<le> c \<and> c \<le> CHR 0x0D))"

text \<open>The class \<^verbatim>\<open>\w\<close>: letters, digits and the underscore.\<close>

definition is_word :: "char \<Rightarrow> bool" where
  "is_word c = (is_upper c \<or> is_lower c \<or> is_digit c \<or> c = CHR ''_'')"

definition lower_char :: "char \<Rightarrow> char" where
  "lower_char c = (if is_upper c then char_of (of_char c + (32::nat)) else c)"

definition toLowerCase :: "string \<Rightarrow> string" where
  "toLowerCase s = map lower_char s"

text \<open>\<^verbatim>\<open>s.includes(t)\<close>: \<open>t\<close> occurs in \<open>s\<close> as a contiguous substring.\<close>

fun str_includes :: "string \<Rightarrow> string \<Rightarrow> bool" where
  "str_includes [] t = (t = [])"
| "str_includes (c # cs) t = (prefix t (c # cs) \<or> str_includes cs t)"

text \<open>\<^verbatim>\<open>xs.join(sep)\<close>.\<close>

fun join :: "string \<Rightarrow> string list \<Rightarrow> string" where
  "join sep [] = []"
| "join sep [x] = x"
| "join sep (x # y # ys) = x @ sep @ join sep (y # ys)"

text \<open>
  \<^verbatim>\<open>s.replace(/[^\w\s]/g, '')\<close> removes every character that is neither a word
  character nor whitespace; \<^verbatim>\<open>s.replace(/\s+/g, ' ')\<close> replaces every maximal run of
  whitespace by one space; \<^verbatim>\<open>s.trim()\<close> removes whitespace at both ends.
\<close>

definition strip_punct :: "string \<Rightarrow> string" where
  "strip_punct s = filter (\<lambda>c. is_word c \<or> is_space c) s"

fun collapse_run :: "bool \<Rightarrow> string \<Rightarrow> string" where
  "collapse_run in_run [] = []"
| "collapse_run in_run (c # cs) =
     (if is_space c then
        (if in_run then collapse_run True cs else CHR '' '' # collapse_run True cs)
      else c # collapse_run False cs)"

definition collapse_ws :: "string \<Rightarrow> string" where
  "collapse_ws s = collapse_run False s"

definition trim :: "string \<Rightarrow> string" where
  "trim s = rev (dropWhile is_space (rev (dropWhile is_space s)))"

text \<open>
  \<^verbatim>\<open>String.prototype\<close> has no property \<^verbatim>\<open>strip\<close>: the call \<^verbatim>\<open>s.strip()\<close> on a string
  calls \<^verbatim>\<open>undefined\<close> and raises a TypeError, whatever the string is.
\<close>

definition strip_call :: "string \<Rightarrow> js_error + string" where
  "strip_call s = Inl TypeError"

text \<open>
  \<^verbatim>\<open>title.split(' - ', 2)\<close>, for a title that contains the separator: the piece before
  the first occurrence and the piece between the first and the second occurrence (or the
  end). \<open>split_first\<close> returns the piece before the first separator and what follows it.
\<close>

fun split_first :: "string \<Rightarrow> string \<times> string option" where
  "split_first [] = ([], None)"
| "split_first (c # cs) =
     (if prefix '' - '' (c # cs) then ([], Some (drop 3 (c # cs)))
      else (case split_first cs of (a, r) \<Rightarrow> (c # a, r)))"

section \<open>The answer cache: class QuestionDatabase\<close>

type_synonym database = "string \<rightharpoonup> string"

text \<open>
  \<^verbatim>\<open>generateKey(title, questionText, options)\<close>. \<^verbatim>\<open>options.sort()\<close> sorts the array it
  is given in place and returns it, so the function has two results: the key, and the
  contents of the caller's array after the call.
\<close>

definition generateKey :: "string \<Rightarrow> string \<Rightarrow> string list \<Rightarrow> string \<times> string list" where
  "generateKey title questionText options =
     (let sorted_options = sort options;
          optionsStr = join ''|'' sorted_options
      in (title @ ''::'' @ questionText @ ''::'' @ optionsStr, sorted_options))"

text \<open>\<^verbatim>\<open>this.db[key] || null\<close>: an entry holding the empty string is falsy and reads as null.\<close>

definition findAnswer ::
  "database \<Rightarrow> string \<Rightarrow> string \<Rightarrow> string list \<Rightarrow> string option \<times> string list" where
  "findAnswer db title questionText options =
     (case generateKey title questionText options of
        (key, options') \<Rightarrow>
          ((case db key of
              None \<Rightarrow> None
            | Some a \<Rightarrow> if a = [] then None else Some a), options'))"

text \<open>The method \<^verbatim>\<open>QuestionDatabase.normalizeText\<close>, which ends with \<^verbatim>\<open>trim()\<close>.\<close>

definition db_normalizeText :: "string \<Rightarrow> string" where
  "db_normalizeText text =
     (if text = [] then [] else trim (collapse_ws (strip_punct (toLowerCase text))))"

section \<open>The resolver\<close>

text \<open>The top-level function \<^verbatim>\<open>normalizeText\<close>, which ends with \<^verbatim>\<open>strip()\<close>.\<close>

definition normalizeText :: "string \<Rightarrow> js_error + string" where
  "normalizeText text =
     (if text = [] then Inr []
      else strip_call (collapse_ws (strip_punct (toLowerCase text))))"

fun strstr_loop :: "string \<Rightarrow> string list \<Rightarrow> string option" where
  "strstr_loop titleLower [] = None"
| "strstr_loop titleLower (option # options) =
     (if str_includes titleLower (toLowerCase option) then Some option
      else strstr_loop titleLower options)"

definition strstrMatch :: "string \<Rightarrow> string list \<Rightarrow> string option" where
  "strstrMatch title options = strstr_loop (toLowerCase title) options"

text \<open>
  The two loops of \<^verbatim>\<open>artistTitleAnalysis\<close>: the first option whose normalized text is
  the normalized part. \<^verbatim>\<open>normalizeText(option)\<close> is evaluated before
  \<^verbatim>\<open>normalizeText(part)\<close>, and an exception of either leaves the loop.
\<close>

fun normalized_loop :: "string \<Rightarrow> string list \<Rightarrow> js_error + string option" where
  "normalized_loop part [] = Inr None"
| "normalized_loop part (option # options) =
     (case normalizeText option of
        Inl e \<Rightarrow> Inl e
      | Inr a \<Rightarrow>
          (case normalizeText part of
             Inl e \<Rightarrow> Inl e
           | Inr b \<Rightarrow> if a = b then Inr (Some option) else normalized_loop part options))"

definition artist_words :: "string list" where
  "artist_words = [''ninde'', ''yaririmvye'', ''artist'', ''singer'', ''chanteur'']"

definition title_words :: "string list" where
  "title_words = [''zina'', ''ndirimbo'', ''title'', ''titre'', ''song'']"

definition artistTitleAnalysis ::
  "string \<Rightarrow> string list \<Rightarrow> string \<Rightarrow> js_error + string option" where
  "artistTitleAnalysis title options questionText =
     (let questionLower = toLowerCase questionText;
          isArtistQuestion = list_ex (\<lambda>word. str_includes questionLower word) artist_words;
          isTitleQuestion = list_ex (\<lambda>word. str_includes questionLower word) title_words
      in if str_includes title '' - '' then
           (case split_first title of
              (artistPart, rest) \<Rightarrow>
                (let titlePart = (case rest of None \<Rightarrow> [] | Some r \<Rightarrow> fst (split_first r));
                     title_step =
                       (if isTitleQuestion then
                          (case normalized_loop titlePart options of
                             Inl e \<Rightarrow> Inl e
                           | Inr (Some option) \<Rightarrow> Inr (Some option)
                           | Inr None \<Rightarrow> Inr None)
                        else Inr None)
                 in if isArtistQuestion then
                      (case normalized_loop artistPart options of
                         Inl e \<Rightarrow> Inl e
                       | Inr (Some option) \<Rightarrow> Inr (Some option)
                       | Inr None \<Rightarrow> title_step)
                    else title_step))
         else Inr None)"

datatype source = Database | Strstr | Artist_title | Human_needed | Human

text \<open>A string or null in a condition: null and the empty string are falsy.\<close>

fun truthy :: "string option \<Rightarrow> bool" where
  "truthy None = False"
| "truthy (Some s) = (s \<noteq> [])"

text \<open>
  \<^verbatim>\<open>findBestAnswer(questionText, title, options)\<close>, with the cache as a parameter. The
  first component is the returned object \<^verbatim>\<open>{answer, source}\<close> or the exception raised; the
  second is the caller's \<^verbatim>\<open>options\<close> array after the call: \<^verbatim>\<open>findAnswer\<close> has sorted it,
  and the two later steps iterate over it as it then is.
\<close>

definition findBestAnswer ::
  "database \<Rightarrow> string \<Rightarrow> string \<Rightarrow> string list
     \<Rightarrow> (js_error + string option \<times> source) \<times> string list" where
  "findBestAnswer db questionText title options =
     (case findAnswer db title questionText options of
        (dbAnswer, options') \<Rightarrow>
          (if truthy dbAnswer \<and> the dbAnswer \<in> set options'
           then Inr (dbAnswer, Database)
           else
             (let strstrResult = strstrMatch title options' in
              if truthy strstrResult then Inr (strstrResult, Strstr)
              else
                (case artistTitleAnalysis title options' questionText of
                   Inl e \<Rightarrow> Inl e
                 | Inr artistTitleResult \<Rightarrow>
                     if truthy artistTitleResult then Inr (artistTitleResult, Artist_title)
                     else Inr (None, Human_needed))),
           options'))"

section \<open>Target times: parseScheduleTime\<close>

text \<open>
  The \<^verbatim>\<open>time\<close> field of a request is a JSON number or a string. Numbers are integers;
  \<^verbatim>\<open>isNaN\<close> and \<^verbatim>\<open>parseInt\<close> are exact on them, and on the strings that denote
  them, below \<open>2^53\<close> in magnitude (beyond, JavaScript rounds to a double, and from
  \<open>10^21\<close> up \<^verbatim>\<open>parseInt\<close> of a number reads its exponent notation). Instants are
  milliseconds since the epoch. Local time is at a fixed offset \<open>tz\<close> (milliseconds) from
  UTC, with no change of offset between the current day and the target; the two readings
  of the clock in the function (\<^verbatim>\<open>new Date()\<close> and \<^verbatim>\<open>Date.now()\<close>) are the one
  instant \<open>now\<close>.
\<close>

datatype time_arg = TNum int | TStr string

datatype time_error = Timestamp_in_past | Invalid_format

definition is_sign :: "char \<Rightarrow> bool" where
  "is_sign c = (c = CHR ''+'' \<or> c = CHR ''-'')"

definition is_hex_digit :: "char \<Rightarrow> bool" where
  "is_hex_digit c =
     (is_digit c \<or> (CHR ''a'' \<le> c \<and> c \<le> CHR ''f'') \<or> (CHR ''A'' \<le> c \<and> c \<le> CHR ''F''))"

definition is_octal_digit :: "char \<Rightarrow> bool" where
  "is_octal_digit c = (CHR ''0'' \<le> c \<and> c \<le> CHR ''7'')"

definition is_binary_digit :: "char \<Rightarrow> bool" where
  "is_binary_digit c = (c = CHR ''0'' \<or> c = CHR ''1'')"

definition digit_value :: "char \<Rightarrow> int" where
  "digit_value c =
     (if is_digit c then int (of_char c) - 48
      else if is_lower c then int (of_char c) - 87
      else int (of_char c) - 55)"

definition digits_value :: "int \<Rightarrow> string \<Rightarrow> int" where
  "digits_value radix ds = foldl (\<lambda>acc c. acc * radix + digit_value c) 0 ds"

definition all_digits :: "string \<Rightarrow> bool" where
  "all_digits ds = (\<not> ds = [] \<and> list_all is_digit ds)"

text \<open>
  The grammar of \<^verbatim>\<open>Number(string)\<close>: optional whitespace around nothing at all (the
  number 0), a signed decimal literal (digits with an optional fraction and exponent, or
  \<^verbatim>\<open>Infinity\<close>), or an unsigned hexadecimal, octal or binary literal. Any other string
  is NaN.
\<close>

definition is_exponent_part :: "string \<Rightarrow> bool" where
  "is_exponent_part s =
     (case s of
        [] \<Rightarrow> False
      | e # r \<Rightarrow>
          (e = CHR ''e'' \<or> e = CHR ''E'') \<and>
          (case r of
             [] \<Rightarrow> False
           | c # ds \<Rightarrow> if is_sign c then all_digits ds else all_digits r))"

definition is_unsigned_decimal :: "string \<Rightarrow> bool" where
  "is_unsigned_decimal u =
     (u = ''Infinity'' \<or>
      (let ip = takeWhile is_digit u; r1 = dropWhile is_digit u in
       case r1 of
         [] \<Rightarrow> \<not> ip = []
       | c # r2 \<Rightarrow>
           if c = CHR ''.'' then
             (let fp = takeWhile is_digit r2; r3 = dropWhile is_digit r2 in
              \<not> (ip = [] \<and> fp = []) \<and> (r3 = [] \<or> is_exponent_part r3))
           else \<not> ip = [] \<and> is_exponent_part r1))"

definition is_non_decimal :: "string \<Rightarrow> bool" where
  "is_non_decimal t =
     (case t of
        z # p # ds \<Rightarrow>
          z = CHR ''0'' \<and> \<not> ds = [] \<and>
          ((p = CHR ''x'' \<or> p = CHR ''X'') \<and> list_all is_hex_digit ds
           \<or> (p = CHR ''o'' \<or> p = CHR ''O'') \<and> list_all is_octal_digit ds
           \<or> (p = CHR ''b'' \<or> p = CHR ''B'') \<and> list_all is_binary_digit ds)
      | _ \<Rightarrow> False)"

definition is_numeric_literal :: "string \<Rightarrow> bool" where
  "is_numeric_literal t =
     (case t of
        [] \<Rightarrow> True
      | c # r \<Rightarrow>
          if is_sign c then is_unsigned_decimal r
          else (is_non_decimal t \<or> is_unsigned_decimal t))"

fun js_isNaN :: "time_arg \<Rightarrow> bool" where
  "js_isNaN (TNum n) = False"
| "js_isNaN (TStr s) = (\<not> is_numeric_literal (trim s))"

text \<open>
  \<^verbatim>\<open>parseInt(string)\<close>: leading whitespace and a sign are skipped, a prefix \<^verbatim>\<open>0x\<close>
  selects radix 16, and the longest run of digits is read; with no digit the result is
  NaN, here \<open>None\<close>.
\<close>

definition parseInt_str :: "string \<Rightarrow> int option" where
  "parseInt_str s =
     (let s1 = dropWhile is_space s;
          negative = prefix ''-'' s1;
          s2 = (if prefix ''-'' s1 \<or> prefix ''+'' s1 then drop 1 s1 else s1);
          hex = (prefix ''0x'' s2 \<or> prefix ''0X'' s2);
          s3 = (if hex then drop 2 s2 else s2);
          ds = takeWhile (if hex then is_hex_digit else is_digit) s3
      in if ds = [] then None
         else Some ((if negative then - 1 else 1) * digits_value (if hex then 16 else 10) ds))"

fun js_parseInt :: "time_arg \<Rightarrow> int option" where
  "js_parseInt (TNum n) = Some n"
| "js_parseInt (TStr s) = parseInt_str s"

text \<open>
  The match of \<^verbatim>\<open>/^(\d{1,2}):(\d{2})$/\<close>: one or two digits, a colon and exactly two
  digits; the two groups.
\<close>

definition match_hhmm :: "string \<Rightarrow> (string \<times> string) option" where
  "match_hhmm s =
     (let hours = takeWhile is_digit s; r = dropWhile is_digit s in
      if length hours = 1 \<or> length hours = 2 then
        (case r of
           [] \<Rightarrow> None
         | c # minutes \<Rightarrow>
             if c = CHR '':'' \<and> length minutes = 2 \<and> list_all is_digit minutes
             then Some (hours, minutes) else None)
      else None)"

definition ms_per_minute :: int where "ms_per_minute = 60000"
definition ms_per_hour :: int where "ms_per_hour = 3600000"
definition ms_per_day :: int where "ms_per_day = 86400000"

text \<open>The instant at which the local day of \<open>now\<close> began.\<close>

definition local_midnight :: "int \<Rightarrow> int \<Rightarrow> int" where
  "local_midnight tz now = now - (now + tz) mod ms_per_day"

text \<open>
  \<^verbatim>\<open>d.setHours(h, m, 0, 0)\<close> on a date of the current day. The arguments are not
  reduced: hours beyond 23 and minutes beyond 59 carry into the following hours and days.
\<close>

definition setHours :: "int \<Rightarrow> int \<Rightarrow> int \<Rightarrow> int \<Rightarrow> int" where
  "setHours tz now h m = local_midnight tz now + h * ms_per_hour + m * ms_per_minute"

definition parseScheduleTime :: "int \<Rightarrow> int \<Rightarrow> time_arg \<Rightarrow> time_error + int" where
  "parseScheduleTime now tz timeStr =
     (if \<not> js_isNaN timeStr then
        (case js_parseInt timeStr of
           None \<Rightarrow> Inl Timestamp_in_past
         | Some timestamp \<Rightarrow> if timestamp > now then Inr timestamp else Inl Timestamp_in_past)
      else
        (case timeStr of
           TNum n \<Rightarrow> Inl Invalid_format
         | TStr s \<Rightarrow>
             (case match_hhmm s of
                None \<Rightarrow> Inl Invalid_format
              | Some (hours, minutes) \<Rightarrow>
                  (let targetTime = setHours tz now (digits_value 10 hours) (digits_value 10 minutes)
                   in if targetTime \<le> now then Inr (targetTime + ms_per_day)
                      else Inr targetTime))))"

section \<open>The session: global state and request handlers\<close>

record stats =
  roundsPlayed :: nat
  totalQuestions :: nat
  correctAnswers :: nat
  startTime :: "int option"
  errors :: nat

text \<open>A question as fetched; \<open>songTitle\<close> is \<^verbatim>\<open>songInfo?.title\<close>.\<close>

record question =
  questionText :: string
  options :: "string list"
  songTitle :: "string option"
  currentIndex :: int

record pending = question +
  roundNumber :: nat
  questionNumber :: nat
  humanAnswer :: "string option"
  saveIfCorrect :: bool

text \<open>
  The global variables of the server, the cache \<^verbatim>\<open>questionDB.db\<close>, and a log of what
  the server has done to the outside: the runs begun (\<^verbatim>\<open>startQuizBot(rounds)\<close> called),
  the timers installed by \<^verbatim>\<open>scheduleQuizBot\<close>, the number of questions fetched and the
  answers passed to \<^verbatim>\<open>submitAnswer\<close>.
\<close>

record session =
  isProcessing :: bool
  waitingForToken :: bool
  waitingForHumanIntervention :: bool
  authToken :: string
  scheduledTime :: "int option"
  currentStats :: stats
  pendingQuestion :: "pending option"
  questionDB :: database
  runs :: "int list"
  timers :: "(int \<times> int) list"
  fetched :: nat
  submitted :: "string option list"

datatype status = RUNNING | WAITING_FOR_HUMAN | WAITING_FOR_TOKEN | SCHEDULED | READY

text \<open>Falsy values: a missing or empty string, a missing or zero number.\<close>

definition falsy :: "string option \<Rightarrow> bool" where
  "falsy v = (\<not> truthy v)"

fun num_falsy :: "int option \<Rightarrow> bool" where
  "num_falsy None = True"
| "num_falsy (Some n) = (n = 0)"

fun time_falsy :: "time_arg option \<Rightarrow> bool" where
  "time_falsy None = True"
| "time_falsy (Some (TNum n)) = (n = 0)"
| "time_falsy (Some (TStr s)) = (s = [])"

definition getStatusString :: "'a session_scheme \<Rightarrow> status" where
  "getStatusString s =
     (if isProcessing s then RUNNING
      else if waitingForHumanIntervention s then WAITING_FOR_HUMAN
      else if waitingForToken s then WAITING_FOR_TOKEN
      else if \<not> num_falsy (scheduledTime s) then SCHEDULED
      else READY)"

definition resetStats :: "int \<Rightarrow> stats" where
  "resetStats now =
     \<lparr>roundsPlayed = 0, totalQuestions = 0, correctAnswers = 0, startTime = Some now,
      errors = 0\<rparr>"

datatype failure =
    Already_running | Missing_fields | No_pending_question | Answer_required
  | Invalid_answer | Nothing_running | Token_required | Time_error time_error

text \<open>
  The response of a handler: success (the payload is left out), or the HTTP status and
  the error.
\<close>

datatype response = Success | Failure nat failure

text \<open>
  Each handler runs to completion before anything else does. In a request body the
  credential and the answer are strings and the number of rounds is an integer, each
  possibly missing. \<^verbatim>\<open>startQuizBot(rounds)\<close> called from a handler
  runs up to its first \<^verbatim>\<open>await\<close>, which changes no variable and raises nothing: the
  handler only records that the run has begun, and the \<^verbatim>\<open>catch\<close> block of
  \<^verbatim>\<open>/start-bot\<close> is never entered.
\<close>

definition start_bot ::
  "int \<Rightarrow> string option \<Rightarrow> int option \<Rightarrow> 'a session_scheme \<Rightarrow> response \<times> 'a session_scheme" where
  "start_bot now token rounds s =
     (if isProcessing s then (Failure 400 Already_running, s)
      else if falsy token \<or> num_falsy rounds then (Failure 400 Missing_fields, s)
      else (Success,
            s\<lparr>authToken := the token, isProcessing := True, scheduledTime := None,
              currentStats := resetStats now, runs := runs s @ [the rounds]\<rparr>))"

definition schedule_bot ::
  "int \<Rightarrow> int \<Rightarrow> string option \<Rightarrow> int option \<Rightarrow> time_arg option
     \<Rightarrow> 'a session_scheme \<Rightarrow> response \<times> 'a session_scheme" where
  "schedule_bot now tz token rounds time s =
     (if isProcessing s then (Failure 400 Already_running, s)
      else if falsy token \<or> num_falsy rounds \<or> time_falsy time then (Failure 400 Missing_fields, s)
      else
        (let s1 = s\<lparr>authToken := the token\<rparr> in
         case parseScheduleTime now tz (the time) of
           Inl e \<Rightarrow> (Failure 500 (Time_error e), s1)
         | Inr targetTime \<Rightarrow>
             (Success,
              s1\<lparr>scheduledTime := Some targetTime,
                 timers := timers s1 @ [(the rounds, targetTime)]\<rparr>)))"

definition stop_bot :: "'a session_scheme \<Rightarrow> response \<times> 'a session_scheme" where
  "stop_bot s =
     (if \<not> isProcessing s \<and> num_falsy (scheduledTime s) then (Failure 400 Nothing_running, s)
      else (Success,
            s\<lparr>isProcessing := False, scheduledTime := None, pendingQuestion := None,
              waitingForHumanIntervention := False\<rparr>))"

definition submit_token :: "string option \<Rightarrow> 'a session_scheme \<Rightarrow> response \<times> 'a session_scheme" where
  "submit_token token s =
     (if falsy token then (Failure 400 Token_required, s)
      else (Success, s\<lparr>authToken := the token, waitingForToken := False\<rparr>))"

text \<open>
  The field \<^verbatim>\<open>saveIfCorrect\<close> of a human answer: missing, null or a boolean. The default
  \<^verbatim>\<open>saveIfCorrect = true\<close> of the destructuring applies to a missing field only; a null
  stays null, which is falsy where the flag is tested.
\<close>

datatype json_flag = Flag_absent | Flag_null | Flag bool

fun flag_value :: "json_flag \<Rightarrow> bool" where
  "flag_value Flag_absent = True"
| "flag_value Flag_null = False"
| "flag_value (Flag b) = b"

definition human_answer ::
  "string option \<Rightarrow> json_flag \<Rightarrow> 'a session_scheme \<Rightarrow> response \<times> 'a session_scheme" where
  "human_answer answer save s =
     (case pendingQuestion s of
        None \<Rightarrow> (Failure 400 No_pending_question, s)
      | Some p \<Rightarrow>
          if falsy answer then (Failure 400 Answer_required, s)
          else if the answer \<notin> set (options p) then (Failure 400 Invalid_answer, s)
          else (Success,
                s\<lparr>pendingQuestion :=
                    Some (p\<lparr>humanAnswer := answer,
                            saveIfCorrect := flag_value save\<rparr>),
                  waitingForHumanIntervention := False\<rparr>))"

text \<open>The values the global variables are initialised with.\<close>

definition initial_session :: session where
  "initial_session =
     \<lparr>isProcessing = False, waitingForToken = False, waitingForHumanIntervention = False,
      authToken = [], scheduledTime = None,
      currentStats =
        \<lparr>roundsPlayed = 0, totalQuestions = 0, correctAnswers = 0, startTime = None, errors = 0\<rparr>,
      pendingQuestion = None, questionDB = Map.empty, runs = [], timers = [], fetched = 0,
      submitted = []\<rparr>"

text \<open>
  The callback that \<^verbatim>\<open>scheduleQuizBot(rounds, targetTime)\<close> installs, run once a second
  until it clears itself.
\<close>

definition timer_tick :: "int \<Rightarrow> int \<Rightarrow> int \<Rightarrow> 'a session_scheme \<Rightarrow> 'a session_scheme" where
  "timer_tick now rounds targetTime s =
     (if num_falsy (scheduledTime s) then s\<lparr>timers := remove1 (rounds, targetTime) (timers s)\<rparr>
      else if now \<ge> targetTime then
        s\<lparr>timers := remove1 (rounds, targetTime) (timers s), isProcessing := True,
          scheduledTime := None, currentStats := resetStats now, runs := runs s @ [rounds]\<rparr>
      else s)"

text \<open>
  What can happen while a run is suspended at an \<^verbatim>\<open>await\<close>: a request is handled or a
  timer callback runs. A request carries the reading of the clock when it is handled
  (and the offset of local time, for a schedule request).
\<close>

datatype request =
    Start_bot int "string option" "int option"
  | Schedule_bot int int "string option" "int option" "time_arg option"
  | Stop_bot
  | Submit_token "string option"
  | Human_answer "string option" json_flag
  | Timer_tick int int int

fun handle :: "request \<Rightarrow> 'a session_scheme \<Rightarrow> 'a session_scheme" where
  "handle (Start_bot now token rounds) s = snd (start_bot now token rounds s)"
| "handle (Schedule_bot now tz token rounds time) s = snd (schedule_bot now tz token rounds time s)"
| "handle Stop_bot s = snd (stop_bot s)"
| "handle (Submit_token token) s = snd (submit_token token s)"
| "handle (Human_answer answer save) s = snd (human_answer answer save s)"
| "handle (Timer_tick now rounds targetTime) s = timer_tick now rounds targetTime s"

definition handle_all :: "request list \<Rightarrow> 'a session_scheme \<Rightarrow> 'a session_scheme" where
  "handle_all reqs s = foldl (\<lambda>s r. handle r s) s reqs"

section \<open>The run: waitForHumanAnswer, playRound and startQuizBot\<close>

text \<open>
  A run is one call of \<^verbatim>\<open>startQuizBot\<close>. It is suspended at every \<^verbatim>\<open>await\<close>; what happens
  meanwhile is given by a script carried along with the session: \<open>arrivals\<close> holds, for
  each suspension in turn, the requests handled during it (none once the script is
  used up), and \<open>user_infos\<close>, \<open>questions\<close> and \<open>submit_results\<close> hold the replies of the
  Answer Source to the successive calls of \<^verbatim>\<open>getUserInfo\<close>, \<^verbatim>\<open>fetchQuestion\<close> and
  \<^verbatim>\<open>submitAnswer\<close> (a call with no reply left never returns). A run that a handled
  request begins is recorded in \<open>runs\<close>; its own steps are not interleaved.
\<close>

datatype net_error = Network_error

record submit_result =
  correct :: bool
  status :: string

record world = session +
  arrivals :: "request list list"
  user_infos :: "(net_error + int option) list"
  questions :: "(net_error + question) list"
  submit_results :: "(net_error + submit_result) list"

datatype 'a outcome = Returned 'a | Suspended

text \<open>One suspension: the next batch of requests is handled.\<close>

definition suspend :: "world \<Rightarrow> world" where
  "suspend w =
     (case arrivals w of
        [] \<Rightarrow> w
      | reqs # rest \<Rightarrow> handle_all reqs (w\<lparr>arrivals := rest\<rparr>))"

text \<open>
  The loop \<^verbatim>\<open>while (waitingForHumanIntervention && isProcessing) await sleep(1000)\<close>. The
  result says whether the loop was left; it is not when the script ends first.
\<close>

fun poll :: "request list list \<Rightarrow> world \<Rightarrow> bool \<times> world" where
  "poll [] w = (\<not> (waitingForHumanIntervention w \<and> isProcessing w), w\<lparr>arrivals := []\<rparr>)"
| "poll (reqs # rest) w =
     (if waitingForHumanIntervention w \<and> isProcessing w then poll rest (handle_all reqs w)
      else (True, w\<lparr>arrivals := reqs # rest\<rparr>))"

text \<open>
  \<^verbatim>\<open>waitForHumanAnswer\<close> returns null (\<open>Inr None\<close>) or the human answer with the flag, or
  raises the TypeError of reading \<^verbatim>\<open>pendingQuestion.humanAnswer\<close> when
  \<^verbatim>\<open>pendingQuestion\<close> is null.
\<close>

definition waitForHumanAnswer ::
  "question \<Rightarrow> nat \<Rightarrow> nat \<Rightarrow> world
     \<Rightarrow> (js_error + (string option \<times> bool) option) outcome \<times> world" where
  "waitForHumanAnswer questionData roundNum questionNum w =
     (let w1 = w\<lparr>pendingQuestion :=
                  Some (question.extend questionData
                          (pending.fields roundNum questionNum None True)),
                waitingForHumanIntervention := True\<rparr>
      in case poll (arrivals w1) w1 of
           (left, w2) \<Rightarrow>
             if \<not> left then (Suspended, w2)
             else if \<not> isProcessing w2 then (Returned (Inr None), w2)
             else
               (case pendingQuestion w2 of
                  None \<Rightarrow> (Returned (Inl TypeError), w2)
                | Some p \<Rightarrow>
                    (Returned (Inr (Some (humanAnswer p, saveIfCorrect p))),
                     w2\<lparr>pendingQuestion := None\<rparr>)))"

text \<open>The answer of the pending question, when there is one, is not the empty string.\<close>

definition pending_answer_ok :: "'a session_scheme \<Rightarrow> bool" where
  "pending_answer_ok s =
     (case pendingQuestion s of None \<Rightarrow> True | Some p \<Rightarrow> \<not> humanAnswer p = Some [])"

text \<open>\<^verbatim>\<open>saveAnswer\<close>: the entry is written, then the file is, during one suspension.\<close>

definition saveAnswer :: "string \<Rightarrow> string \<Rightarrow> string list \<Rightarrow> string option \<Rightarrow> world \<Rightarrow> world" where
  "saveAnswer title qtext opts correctAnswer w =
     suspend (w\<lparr>questionDB := (questionDB w)(fst (generateKey title qtext opts) := correctAnswer)\<rparr>)"

definition count_error :: "world \<Rightarrow> world" where
  "count_error w = w\<lparr>currentStats := (currentStats w)\<lparr>errors := errors (currentStats w) + 1\<rparr>\<rparr>"

text \<open>The \<^verbatim>\<open>catch\<close> block of a question: the error is counted, then \<^verbatim>\<open>sleep(2000)\<close>.\<close>

definition catch_block :: "world \<Rightarrow> world" where
  "catch_block w = suspend (count_error w)"

text \<open>How one pass of the loop over the questions of a round ends.\<close>

datatype slot = Next_slot | Round_completed | Round_aborted | Slot_suspended

text \<open>From \<^verbatim>\<open>submitAnswer(result.answer)\<close> to the end of the \<^verbatim>\<open>try\<close> block.\<close>

definition submit_step ::
  "string option \<Rightarrow> source \<Rightarrow> bool \<Rightarrow> string \<Rightarrow> question \<Rightarrow> world \<Rightarrow> slot \<times> world" where
  "submit_step answer src save title questionData w =
     (let w1 = suspend (w\<lparr>submitted := submitted w @ [answer]\<rparr>) in
      case submit_results w1 of
        [] \<Rightarrow> (Slot_suspended, w1)
      | reply # later \<Rightarrow>
          (let w2 = w1\<lparr>submit_results := later\<rparr> in
           case reply of
             Inl e \<Rightarrow> (Next_slot, catch_block w2)
           | Inr submitResult \<Rightarrow>
               (let w3 =
                      (if correct submitResult then
                         (let w' = w2\<lparr>currentStats := (currentStats w2)
                                      \<lparr>correctAnswers := correctAnswers (currentStats w2) + 1\<rparr>\<rparr>
                          in if src = Human \<and> save
                             then saveAnswer title (questionText questionData)
                                    (options questionData) answer w'
                             else w')
                       else w2);
                    w4 = suspend w3
                in if status submitResult = ''completed'' then (Round_completed, w4)
                   else (Next_slot, w4))))"

text \<open>
  The body of the loop over the questions, after the test of \<^verbatim>\<open>isProcessing\<close>: fetch,
  resolve, ask the human when there is no answer, submit. \<^verbatim>\<open>findBestAnswer\<close> leaves the
  options of \<^verbatim>\<open>questionData\<close> sorted.
\<close>

definition play_question :: "nat \<Rightarrow> nat \<Rightarrow> world \<Rightarrow> slot \<times> world" where
  "play_question roundNum questionNum w =
     (let w1 = suspend (w\<lparr>fetched := fetched w + 1\<rparr>) in
      case questions w1 of
        [] \<Rightarrow> (Slot_suspended, w1)
      | reply # later \<Rightarrow>
          (let w2 = w1\<lparr>questions := later\<rparr> in
           case reply of
             Inl e \<Rightarrow> (Next_slot, catch_block w2)
           | Inr questionData \<Rightarrow>
               (let title = (case songTitle questionData of None \<Rightarrow> [] | Some t \<Rightarrow> t);
                    w3 = w2\<lparr>currentStats := (currentStats w2)
                               \<lparr>totalQuestions := totalQuestions (currentStats w2) + 1\<rparr>\<rparr>
                in case findBestAnswer (questionDB w3) (questionText questionData) title
                          (options questionData) of
                     (result, options') \<Rightarrow>
                       (let questionData' = questionData\<lparr>options := options'\<rparr> in
                        case result of
                          Inl e \<Rightarrow> (Next_slot, catch_block w3)
                        | Inr (answer, src) \<Rightarrow>
                            if truthy answer
                            then submit_step answer src True title questionData' w3
                            else
                              (case waitForHumanAnswer questionData' roundNum questionNum w3 of
                                 (Suspended, w4) \<Rightarrow> (Slot_suspended, w4)
                               | (Returned (Inl e), w4) \<Rightarrow> (Next_slot, catch_block w4)
                               | (Returned (Inr None), w4) \<Rightarrow> (Round_aborted, w4)
                               | (Returned (Inr (Some (a, save))), w4) \<Rightarrow>
                                   submit_step a Human save title questionData' w4)))))"

definition count_round :: "world \<Rightarrow> world" where
  "count_round w =
     w\<lparr>currentStats := (currentStats w)\<lparr>roundsPlayed := roundsPlayed (currentStats w) + 1\<rparr>\<rparr>"

text \<open>
  \<^verbatim>\<open>playRound\<close>: at most 10 questions. \<open>Returned True\<close> is the round played,
  \<open>Returned False\<close> the round aborted during the wait for the human.
\<close>

fun question_loop :: "nat \<Rightarrow> nat \<Rightarrow> nat \<Rightarrow> world \<Rightarrow> bool outcome \<times> world" where
  "question_loop 0 roundNum questionNum w = (Returned True, count_round w)"
| "question_loop (Suc k) roundNum questionNum w =
     (if \<not> isProcessing w then (Returned True, count_round w)
      else
        (case play_question roundNum questionNum w of
           (Next_slot, w') \<Rightarrow> question_loop k roundNum (Suc questionNum) w'
         | (Round_completed, w') \<Rightarrow> (Returned True, count_round w')
         | (Round_aborted, w') \<Rightarrow> (Returned False, w')
         | (Slot_suspended, w') \<Rightarrow> (Suspended, w')))"

definition playRound :: "nat \<Rightarrow> world \<Rightarrow> bool outcome \<times> world" where
  "playRound roundNum w = question_loop 10 roundNum 1 w"

text \<open>
  The loop over the rounds of \<^verbatim>\<open>startQuizBot\<close>; the first argument counts the passes
  left, \<open>roundsToPlay\<close> at the start, which is as many as the loop can make.
\<close>

fun round_loop :: "nat \<Rightarrow> nat \<Rightarrow> int \<Rightarrow> world \<Rightarrow> unit outcome \<times> world" where
  "round_loop 0 round roundsToPlay w = (Returned (), w)"
| "round_loop (Suc k) round roundsToPlay w =
     (if int round \<le> roundsToPlay \<and> isProcessing w then
        (case playRound round w of
           (Suspended, w') \<Rightarrow> (Suspended, w')
         | (Returned False, w') \<Rightarrow> (Returned (), w')
         | (Returned True, w') \<Rightarrow>
             round_loop k (Suc round) roundsToPlay
               (if int round < roundsToPlay \<and> isProcessing w' then suspend w' else w'))
      else (Returned (), w))"

text \<open>
  \<^verbatim>\<open>startQuizBot(roundsToPlay)\<close>. The body of its \<^verbatim>\<open>try\<close> block returns, raises the
  error of \<^verbatim>\<open>getUserInfo\<close>, or stays suspended; the \<^verbatim>\<open>catch\<close> block counts the error and
  the \<^verbatim>\<open>finally\<close> block clears \<^verbatim>\<open>isProcessing\<close>, so the function itself never raises.
\<close>

definition startQuizBot_body :: "int \<Rightarrow> world \<Rightarrow> (net_error + unit) outcome \<times> world" where
  "startQuizBot_body roundsToPlay w =
     (let w1 = suspend w in
      case user_infos w1 of
        [] \<Rightarrow> (Suspended, w1)
      | reply # later \<Rightarrow>
          (let w2 = w1\<lparr>user_infos := later\<rparr> in
           case reply of
             Inl e \<Rightarrow> (Returned (Inl e), w2)
           | Inr playTimes \<Rightarrow>
               (let availableTurns = (case playTimes of None \<Rightarrow> 0 | Some n \<Rightarrow> n) in
                if availableTurns < roundsToPlay
                then (Returned (Inr ()), w2\<lparr>isProcessing := False\<rparr>)
                else
                  (case round_loop (nat roundsToPlay) 1 roundsToPlay w2 of
                     (Suspended, w3) \<Rightarrow> (Suspended, w3)
                   | (Returned u, w3) \<Rightarrow> (Returned (Inr ()), w3)))))"

definition startQuizBot :: "int \<Rightarrow> world \<Rightarrow> unit outcome \<times> world" where
  "startQuizBot roundsToPlay w =
     (case startQuizBot_body roundsToPlay w of
        (Suspended, w') \<Rightarrow> (Suspended, w')
      | (Returned (Inl e), w') \<Rightarrow> (Returned (), (count_error w')\<lparr>isProcessing := False\<rparr>)
      | (Returned (Inr u), w') \<Rightarrow> (Returned (), w'\<lparr>isProcessing := False\<rparr>))"

text \<open>The initial session with a script.\<close>

definition initial_world ::
  "request list list \<Rightarrow> (net_error + int option) list \<Rightarrow> (net_error + question) list
     \<Rightarrow> (net_error + submit_result) list \<Rightarrow> world" where
  "initial_world reqs infos qs results =
     session.extend initial_session (world.fields reqs infos qs results)"

section \<open>Scenarios\<close>

text \<open>
  A question that no step of the resolver answers, and one that the substring step
  answers with \<open>Bob\<close>.
\<close>

definition unknown_song :: question where
  "unknown_song =
     \<lparr>questionText = ''who sings'', options = [''Bob'', ''Alice''], songTitle = Some ''XYZ'',
      currentIndex = 0\<rparr>"

definition known_song :: question where
  "known_song =
     \<lparr>questionText = ''who sings'', options = [''Bob'', ''Alice''],
      songTitle = Some ''Bob - Song A'', currentIndex = 1\<rparr>"

text \<open>
  A run of one round has been started and is about to play the round. Nothing arrives
  while the first question is fetched; the resolver has no answer for it, and during the
  first second of the wait for the human a stop request and then a start request are
  handled. The second question fetched is answered by the substring step, and the Answer
  Source replies that the answer is correct and the round completed.
\<close>

definition restart_scenario :: world where
  "restart_scenario =
     snd (start_bot 1700000000000 (Some ''t'') (Some 1)
       (initial_world [[], [Stop_bot, Start_bot 1700000000500 (Some ''t'') (Some 1)]] []
          [Inr unknown_song, Inr known_song] [Inr \<lparr>correct = True, status = ''completed''\<rparr>]))"

text \<open>
  A run of 5 rounds has been started on an account with 3 play-credits left; and the
  same on an account with 5, with a stop request handled while the credits are queried.
\<close>

definition shortfall_scenario :: world where
  "shortfall_scenario =
     snd (start_bot 1700000000000 (Some ''t'') (Some 5) (initial_world [] [Inr (Some 3)] [] []))"

definition stopped_scenario :: world where
  "stopped_scenario =
     snd (start_bot 1700000000000 (Some ''t'') (Some 5)
       (initial_world [[Stop_bot]] [Inr (Some 5)] [] []))"

section \<open>Properties of what the program stores in the cache\<close>

text \<open>Handled requests leave the script, the cache and the log of calls alone.\<close>

lemma handle_keeps:
  fixes w :: world
  shows "user_infos (handle r w) = user_infos w"
    and "questions (handle r w) = questions w"
    and "submit_results (handle r w) = submit_results w"
    and "arrivals (handle r w) = arrivals w"
    and "fetched (handle r w) = fetched w"
    and "submitted (handle r w) = submitted w"
    and "questionDB (handle r w) = questionDB w"
  by (cases r; simp add: start_bot_def schedule_bot_def stop_bot_def submit_token_def
        human_answer_def timer_tick_def Let_def split: option.splits sum.splits)+

lemma handle_all_keeps:
  fixes w :: world
  shows "user_infos (handle_all reqs w) = user_infos w"
    and "questions (handle_all reqs w) = questions w"
    and "submit_results (handle_all reqs w) = submit_results w"
    and "arrivals (handle_all reqs w) = arrivals w"
    and "fetched (handle_all reqs w) = fetched w"
    and "submitted (handle_all reqs w) = submitted w"
    and "questionDB (handle_all reqs w) = questionDB w"
  unfolding handle_all_def
  by (induction reqs arbitrary: w; simp add: handle_keeps)+

lemma suspend_keeps:
  "user_infos (suspend w) = user_infos w"
  "questions (suspend w) = questions w"
  "submit_results (suspend w) = submit_results w"
  "fetched (suspend w) = fetched w"
  "submitted (suspend w) = submitted w"
  "questionDB (suspend w) = questionDB w"
  by (simp_all add: suspend_def handle_all_keeps split: list.splits)

text \<open>
  The answer of a pending question is set by \<^verbatim>\<open>/human-answer\<close> only, which rejects a
  falsy answer; so the answer that \<^verbatim>\<open>waitForHumanAnswer\<close> returns is never the empty
  string, and neither is an answer of the resolver. \<^verbatim>\<open>saveAnswer\<close> is the only write to
  the cache: a run that starts on a cache with no empty entry leaves no empty entry.
\<close>

lemma handle_pending_ok:
  "pending_answer_ok s \<Longrightarrow> pending_answer_ok (handle r s)"
  by (cases r)
     (auto simp add: pending_answer_ok_def start_bot_def schedule_bot_def stop_bot_def
        submit_token_def human_answer_def timer_tick_def falsy_def Let_def
        split: option.splits sum.splits if_splits elim: truthy.elims)

lemma handle_all_pending_ok:
  "pending_answer_ok s \<Longrightarrow> pending_answer_ok (handle_all reqs s)"
  unfolding handle_all_def
  by (induction reqs arbitrary: s) (simp_all add: handle_pending_ok)

lemma pending_ok_arrivals [simp]:
  "pending_answer_ok (w\<lparr>arrivals := bs\<rparr>) = pending_answer_ok w"
  by (simp add: pending_answer_ok_def)

lemma poll_pending_ok:
  "pending_answer_ok w \<Longrightarrow> pending_answer_ok (snd (poll bs w))"
  by (induction bs arbitrary: w) (simp_all add: handle_all_pending_ok)

lemma waitForHumanAnswer_nonempty:
  assumes "waitForHumanAnswer qd r q w = (Returned (Inr (Some (a, save))), w')"
  shows "a \<noteq> Some []"
proof -
  let ?w1 = "w\<lparr>pendingQuestion :=
                  Some (question.extend qd (pending.fields r q None True)),
                waitingForHumanIntervention := True\<rparr>"
  have "pending_answer_ok ?w1"
    by (simp add: pending_answer_ok_def question.defs pending.defs)
  then have ok: "pending_answer_ok (snd (poll (arrivals ?w1) ?w1))"
    by (rule poll_pending_ok)
  show ?thesis
    using assms ok
    by (auto simp add: waitForHumanAnswer_def Let_def pending_answer_ok_def
        split: prod.splits if_splits option.splits)
qed

lemma findBestAnswer_keeps_truthy:
  "findBestAnswer db qtext title opts = (Inr (answer, src), opts') \<Longrightarrow> answer \<noteq> Some []"
  by (auto simp add: findBestAnswer_def Let_def split: prod.splits sum.splits if_splits
      elim: truthy.elims)

lemma saveAnswer_cache:
  assumes "answer \<noteq> Some []" and "\<forall>k. questionDB w k \<noteq> Some []"
  shows "\<forall>k. questionDB (saveAnswer title qtext opts answer w) k \<noteq> Some []"
  using assms by (simp add: saveAnswer_def suspend_keeps)

lemma count_keeps_cache [simp]:
  "questionDB (count_error w) = questionDB w"
  "questionDB (count_round w) = questionDB w"
  "questionDB (catch_block w) = questionDB w"
  by (simp_all add: count_error_def count_round_def catch_block_def suspend_keeps)

lemma submit_step_cache:
  assumes "answer \<noteq> Some []" and "\<forall>k. questionDB w k \<noteq> Some []"
  shows "\<forall>k. questionDB (snd (submit_step answer src save title qd w)) k \<noteq> Some []"
  using assms saveAnswer_cache [OF assms(1), of _ title "questionText qd" "options qd"]
  by (auto simp add: submit_step_def Let_def suspend_keeps saveAnswer_def
      split: list.splits sum.splits)


lemma poll_keeps_cache:
  "questionDB (snd (poll bs w)) = questionDB w"
  by (induction bs arbitrary: w) (simp_all add: handle_all_keeps)

lemma waitForHumanAnswer_keeps_cache:
  "questionDB (snd (waitForHumanAnswer qd r q w)) = questionDB w"
proof -
  let ?w1 = "w\<lparr>pendingQuestion :=
                  Some (question.extend qd (pending.fields r q None True)),
                waitingForHumanIntervention := True\<rparr>"
  have "questionDB (snd (poll (arrivals ?w1) ?w1)) = questionDB w"
    by (simp add: poll_keeps_cache)
  then show ?thesis
    by (auto simp add: waitForHumanAnswer_def Let_def split: prod.splits option.splits)
qed

lemma play_question_cache:
  assumes "\<forall>k. questionDB w k \<noteq> Some []"
  shows "\<forall>k. questionDB (snd (play_question r q w)) k \<noteq> Some []"
proof -
  let ?w1 = "suspend (w\<lparr>fetched := fetched w + 1\<rparr>)"
  have c1: "questionDB ?w1 = questionDB w" by (simp add: suspend_keeps)
  show ?thesis
  proof (cases "questions ?w1")
    case Nil
    then show ?thesis using assms c1 by (simp add: play_question_def Let_def)
  next
    case (Cons reply later)
    let ?w2 = "?w1\<lparr>questions := later\<rparr>"
    show ?thesis
    proof (cases reply)
      case (Inl e)
      then show ?thesis using assms c1 Cons by (simp add: play_question_def Let_def)
    next
      case (Inr qd)
      let ?title = "case songTitle qd of None \<Rightarrow> [] | Some t \<Rightarrow> t"
      let ?w3 = "?w2\<lparr>currentStats := (currentStats ?w2)
                   \<lparr>totalQuestions := totalQuestions (currentStats ?w2) + 1\<rparr>\<rparr>"
      have c3: "\<forall>k. questionDB ?w3 k \<noteq> Some []" using assms c1 by simp
      obtain result opts' where fb:
        "findBestAnswer (questionDB ?w3) (questionText qd) ?title (options qd) = (result, opts')"
        by (metis prod.collapse)
      have pq: "play_question r q w =
          (case result of
             Inl e \<Rightarrow> (Next_slot, catch_block ?w3)
           | Inr (answer, src) \<Rightarrow>
               if truthy answer
               then submit_step answer src True ?title (qd\<lparr>options := opts'\<rparr>) ?w3
               else
                 (case waitForHumanAnswer (qd\<lparr>options := opts'\<rparr>) r q ?w3 of
                    (Suspended, w4) \<Rightarrow> (Slot_suspended, w4)
                  | (Returned (Inl e), w4) \<Rightarrow> (Next_slot, catch_block w4)
                  | (Returned (Inr None), w4) \<Rightarrow> (Round_aborted, w4)
                  | (Returned (Inr (Some (a, save))), w4) \<Rightarrow>
                      submit_step a Human save ?title (qd\<lparr>options := opts'\<rparr>) w4))"
        unfolding play_question_def Let_def
        by (simp only: Cons Inr fb list.case sum.case prod.case)
      show ?thesis
      proof (cases result)
        case (Inl e)
        then show ?thesis using pq c3 by simp
      next
        case (Inr as)
        obtain answer src where as: "as = (answer, src)" by (cases as)
        show ?thesis
        proof (cases "truthy answer")
          case True
          then have "answer \<noteq> Some []" by (auto elim: truthy.elims)
          then show ?thesis
            using pq Inr as True submit_step_cache [OF _ c3] by simp
        next
          case False
          obtain out w4 where wf:
            "waitForHumanAnswer (qd\<lparr>options := opts'\<rparr>) r q ?w3 = (out, w4)"
            by (metis prod.collapse)
          have c4: "\<forall>k. questionDB w4 k \<noteq> Some []"
            using waitForHumanAnswer_keeps_cache [of "qd\<lparr>options := opts'\<rparr>" r q ?w3] wf c3
            by simp
          show ?thesis
          proof (cases out)
            case Suspended
            then show ?thesis using pq Inr as False wf c4 by simp
          next
            case (Returned x)
            show ?thesis
            proof (cases x)
              case (Inl e)
              then show ?thesis using pq Inr as False wf c4 Returned by simp
            next
              case (Inr y)
              note y = this
              show ?thesis
              proof (cases y)
                case None
                then show ?thesis using pq \<open>result = Inr as\<close> as False wf c4 Returned y by simp
              next
                case (Some z)
                obtain a save where z: "z = (a, save)" by (cases z)
                have "a \<noteq> Some []"
                  using waitForHumanAnswer_nonempty wf Returned y Some z by blast
                then show ?thesis
                  using pq \<open>result = Inr as\<close> as False wf Returned y Some z
                    submit_step_cache [OF _ c4] by simp
              qed
            qed
          qed
        qed
      qed
    qed
  qed
qed

lemma question_loop_cache:
  "\<forall>k. questionDB w k \<noteq> Some [] \<Longrightarrow>
     \<forall>k. questionDB (snd (question_loop n r q w)) k \<noteq> Some []"
proof (induction n arbitrary: q w)
  case 0
  then show ?case by simp
next
  case (Suc n)
  obtain sl w' where pq: "play_question r q w = (sl, w')" by (metis prod.collapse)
  have c: "\<forall>k. questionDB w' k \<noteq> Some []"
    using play_question_cache [OF Suc.prems, of r q] pq by simp
  show ?case
    using Suc.prems pq c Suc.IH [OF c] by (cases sl) simp_all
qed

lemma round_loop_cache:
  "\<forall>k. questionDB w k \<noteq> Some [] \<Longrightarrow>
     \<forall>k. questionDB (snd (round_loop n r roundsToPlay w)) k \<noteq> Some []"
proof (induction n arbitrary: r w)
  case 0
  then show ?case by simp
next
  case (Suc n)
  obtain out w' where pr: "playRound r w = (out, w')" by (metis prod.collapse)
  have c: "\<forall>k. questionDB w' k \<noteq> Some []"
    using question_loop_cache [OF Suc.prems, of 10 r 1] pr by (simp add: playRound_def)
  let ?w'' = "if int r < roundsToPlay \<and> isProcessing w' then suspend w' else w'"
  have c': "\<forall>k. questionDB ?w'' k \<noteq> Some []" using c by (simp add: suspend_keeps)
  show ?case
  proof (cases out)
    case Suspended
    then show ?thesis using Suc.prems pr c by simp
  next
    case (Returned b)
    then show ?thesis using Suc.prems pr c Suc.IH [OF c'] by (cases b) simp_all
  qed
qed

lemma program_stores_only_answers:
  assumes "\<forall>k. questionDB w k \<noteq> Some []"
  shows "\<forall>k. questionDB (snd (startQuizBot n w)) k \<noteq> Some []"
proof -
  have "\<forall>k. questionDB (snd (startQuizBot_body n w)) k \<noteq> Some []"
    using assms round_loop_cache [of "(suspend w)\<lparr>user_infos := tl (user_infos (suspend w))\<rparr>" "nat n" 1 n]
    by (auto simp add: startQuizBot_body_def Let_def suspend_keeps
        split: list.splits sum.splits prod.splits outcome.splits)
  then show ?thesis
    by (auto simp add: startQuizBot_def split: prod.splits outcome.splits sum.splits)
qed

section \<open>Properties of the answer cache and the resolver\<close>

lemma normalizeText_raises: "text \<noteq> [] \<Longrightarrow> normalizeText text = Inl TypeError"
  by (simp add: normalizeText_def strip_call_def)

lemma artistTitleAnalysis_no_separator:
  "\<not> str_includes title '' - '' \<Longrightarrow> artistTitleAnalysis title opts qtext = Inr None"
  by (simp add: artistTitleAnalysis_def Let_def)

text \<open>
  No loop of the artist/title step returns a non-empty option, so no answer of the
  resolver has the provenance artist-title.
\<close>

lemma normalized_loop_never_answers:
  "normalized_loop part opts = Inr (Some a) \<Longrightarrow> a = []"
  by (induction opts) (auto simp add: normalizeText_def strip_call_def split: if_splits)

lemma artistTitleAnalysis_never_answers:
  "artistTitleAnalysis title opts qtext = Inr (Some a) \<Longrightarrow> a = []"
  by (auto simp add: artistTitleAnalysis_def Let_def
      split: if_splits prod.splits sum.splits option.splits
      dest: normalized_loop_never_answers)

lemma artist_title_unreachable:
  "fst (findBestAnswer db qtext title opts) \<noteq> Inr (answer, Artist_title)"
  by (auto simp add: findBestAnswer_def Let_def
      split: prod.splits sum.splits if_splits
      dest: artistTitleAnalysis_never_answers elim: truthy.elims)

lemma sort_cong_mset: "mset (xs :: string list) = mset ys \<Longrightarrow> sort xs = sort ys"
  by (metis properties_for_sort mset_sort sorted_sort)

text \<open>
  Claim C1. With a title \<open>Bob - Song A\<close>, an artist question and the options \<open>BOB!\<close> and
  \<open>Alice\<close>, the cache is empty and no option is a substring of the title, and \<open>BOB!\<close>
  normalizes (with the method of the cache, which trims) to the same text as the artist
  part \<open>Bob\<close>. The resolver should return \<open>BOB!\<close> with provenance artist-title. It raises
  a TypeError instead: the top-level \<^verbatim>\<open>normalizeText\<close> ends with a call of \<^verbatim>\<open>strip\<close>,
  which strings do not have.
\<close>

theorem artist_heuristic_raises:
  "strstrMatch ''Bob - Song A'' (sort [''BOB!'', ''Alice'']) = None
   \<and> db_normalizeText ''BOB!'' = db_normalizeText ''Bob''
   \<and> fst (findBestAnswer Map.empty ''who is the artist'' ''Bob - Song A'' [''BOB!'', ''Alice''])
       = Inl TypeError"
  by code_simp

text \<open>
  Claim C2, as stated: for the title \<open>Bob - Song A\<close>, the text \<open>who is the artist\<close>, the
  options \<open>Bob\<close> and \<open>Alice\<close> and an empty cache, the resolver returns \<open>Bob\<close> with
  provenance artist-title. It does not.
\<close>

theorem findBestAnswer_bob_not_artist_title:
  "fst (findBestAnswer Map.empty ''who is the artist'' ''Bob - Song A'' [''Bob'', ''Alice''])
     \<noteq> Inr (Some ''Bob'', Artist_title)"
  by (simp add: findBestAnswer_def findAnswer_def generateKey_def strstrMatch_def
      toLowerCase_def lower_char_def is_upper_def)

text \<open>
  Claim C2, amended: on that input the resolver returns \<open>Bob\<close> with provenance substring,
  since \<open>bob\<close> occurs in the lower-cased title and the substring step comes before the
  artist/title step.
\<close>

theorem findBestAnswer_bob_is_strstr:
  "fst (findBestAnswer Map.empty ''who is the artist'' ''Bob - Song A'' [''Bob'', ''Alice''])
     = Inr (Some ''Bob'', Strstr)"
  by (simp add: findBestAnswer_def findAnswer_def generateKey_def strstrMatch_def
      toLowerCase_def lower_char_def is_upper_def)

text \<open>
  Claim C3. Resolution should leave the options of the question in the order they were
  fetched in. For the title \<open>Alice and Bob\<close> and the options \<open>Bob\<close>, \<open>Alice\<close>, the array
  is \<open>Alice\<close>, \<open>Bob\<close> after the call, because the key of the cache sorts it in place; the
  substring step then answers \<open>Alice\<close>, where on the options as fetched it finds \<open>Bob\<close>.
\<close>

theorem findBestAnswer_sorts_options:
  "strstrMatch ''Alice and Bob'' [''Bob'', ''Alice''] = Some ''Bob''
   \<and> findBestAnswer Map.empty ''who sings'' ''Alice and Bob'' [''Bob'', ''Alice'']
       = (Inr (Some ''Alice'', Strstr), [''Alice'', ''Bob''])"
  by code_simp

text \<open>
  Claim C4. Two questions with the same title, the same text and the same multiset of
  options have the same key; and the key computed again on the array that a first call
  has sorted is the key of the first call.
\<close>

theorem generateKey_order_independent:
  assumes "mset opts1 = mset opts2"
  shows "fst (generateKey title qtext opts1) = fst (generateKey title qtext opts2)
       \<and> fst (generateKey title qtext (snd (generateKey title qtext opts1)))
           = fst (generateKey title qtext opts1)"
  using sort_cong_mset [OF assms] by (simp add: generateKey_def Let_def sorted_sort_id)

theorem generateKey_order_independent_witness:
  "mset [''Bob'', ''Alice''] = mset [''Alice'', ''Bob'']
   \<and> fst (generateKey ''T'' ''Q'' [''Bob'', ''Alice'']) = ''T::Q::Alice|Bob''
   \<and> fst (generateKey ''T'' ''Q'' [''Alice'', ''Bob'']) = ''T::Q::Alice|Bob''"
proof -
  have h: "mset [''Bob'', ''Alice''] = mset [''Alice'', ''Bob'']" by simp
  have k: "fst (generateKey ''T'' ''Q'' [''Alice'', ''Bob'']) = ''T::Q::Alice|Bob''"
    by (simp add: generateKey_def)
  show ?thesis
    using h k generateKey_order_independent [OF h, of "''T''" "''Q''"] by simp
qed

text \<open>
  On a cache with no empty entry, as every cache is that the program builds
  (\<open>program_stores_only_answers\<close>), an entry that is among the options is returned.
\<close>

lemma cached_answer_returned:
  assumes "\<forall>k. db k \<noteq> Some []"
    and "db (fst (generateKey title qtext opts)) = Some a"
    and "a \<in> set opts"
  shows "fst (findBestAnswer db qtext title opts) = Inr (Some a, Database)"
proof -
  have "a \<noteq> []" using assms(1,2) by metis
  then show ?thesis
    using assms(2,3) by (simp add: findBestAnswer_def findAnswer_def generateKey_def Let_def)
qed

text \<open>
  Claim C5. When the cache holds an answer \<open>a\<close> under the key of the question (an answer
  is a non-empty string: \<^verbatim>\<open>/human-answer\<close> accepts no other, and the program stores
  no other), then (1) if \<open>a\<close> is among the options, the resolver returns it with
  provenance cache, whatever the later steps would find; (2) if \<open>a\<close> is not among the
  options, the resolver behaves as on an empty cache, and (3) in particular returns a
  non-empty match of the substring step with provenance substring.
\<close>

theorem cache_hit_or_fall_through:
  assumes "db (fst (generateKey title qtext opts)) = Some a"
  shows "(a \<noteq> [] \<and> a \<in> set opts \<longrightarrow>
            fst (findBestAnswer db qtext title opts) = Inr (Some a, Database))
       \<and> (a \<notin> set opts \<longrightarrow>
            findBestAnswer db qtext title opts
              = findBestAnswer Map.empty qtext title opts)
       \<and> (a \<notin> set opts \<and> strstrMatch title (sort opts) = Some b \<and> b \<noteq> [] \<longrightarrow>
            fst (findBestAnswer db qtext title opts) = Inr (Some b, Strstr))"
  using assms by (simp add: findBestAnswer_def findAnswer_def generateKey_def Let_def)

theorem cache_hit_or_fall_through_witness:
  "fst (findBestAnswer [''Bob - Song A::who is the artist::Alice|Bob'' \<mapsto> ''Alice'']
         ''who is the artist'' ''Bob - Song A'' [''Bob'', ''Alice''])
     = Inr (Some ''Alice'', Database)
   \<and> fst (findBestAnswer [''Bob - Song A::who is the artist::Alice|Bob'' \<mapsto> ''Carol'']
         ''who is the artist'' ''Bob - Song A'' [''Bob'', ''Alice''])
     = Inr (Some ''Bob'', Strstr)"
proof -
  let ?k = "''Bob - Song A::who is the artist::Alice|Bob''"
  have key: "fst (generateKey ''Bob - Song A'' ''who is the artist'' [''Bob'', ''Alice'']) = ?k"
    by (simp add: generateKey_def)
  have hit: "[?k \<mapsto> ''Alice'']
      (fst (generateKey ''Bob - Song A'' ''who is the artist'' [''Bob'', ''Alice''])) = Some ''Alice''"
    by (simp add: key)
  have miss: "[?k \<mapsto> ''Carol'']
      (fst (generateKey ''Bob - Song A'' ''who is the artist'' [''Bob'', ''Alice''])) = Some ''Carol''"
    by (simp add: key)
  have s: "strstrMatch ''Bob - Song A'' (sort [''Bob'', ''Alice'']) = Some ''Bob''"
    by (simp add: strstrMatch_def toLowerCase_def lower_char_def is_upper_def)
  have mem: "''Alice'' \<noteq> [] \<and> ''Alice'' \<in> set [''Bob'', ''Alice'']" by simp
  have nm: "''Carol'' \<notin> set [''Bob'', ''Alice'']" by simp
  have ne: "''Bob'' \<noteq> []" by simp
  show ?thesis
    using cache_hit_or_fall_through [of "[?k \<mapsto> ''Alice'']" "''Bob - Song A''"
        "''who is the artist''" "[''Bob'', ''Alice'']" "''Alice''", OF hit]
      cache_hit_or_fall_through [of "[?k \<mapsto> ''Carol'']" "''Bob - Song A''"
        "''who is the artist''" "[''Bob'', ''Alice'']" "''Carol''" "''Bob''", OF miss] s mem nm ne
    by blast
qed

section \<open>Properties of the request handlers and of target times\<close>

lemma running_iff: "getStatusString s = RUNNING \<longleftrightarrow> isProcessing s"
  by (simp add: getStatusString_def)

lemma missing_fields_keep_state:
  "falsy token \<or> num_falsy rounds \<Longrightarrow> snd (start_bot now token rounds s) = s"
  "falsy token \<or> num_falsy rounds \<or> time_falsy time \<Longrightarrow>
     snd (schedule_bot now tz token rounds time s) = s"
  "falsy token \<Longrightarrow> snd (submit_token token s) = s"
  by (auto simp add: start_bot_def schedule_bot_def submit_token_def)

lemma rejected_answer_keeps_state:
  "fst (human_answer answer save s) \<noteq> Success \<Longrightarrow> snd (human_answer answer save s) = s"
  by (auto simp add: human_answer_def split: option.splits if_splits)

lemma valid_clock_time_is_next_occurrence:
  fixes h m tz now t r :: int
  assumes "0 \<le> h" "h < 24" "0 \<le> m" "m < 60"
  defines "t \<equiv> setHours tz now h m"
  defines "r \<equiv> (if t \<le> now then t + ms_per_day else t)"
  shows "now < r \<and> r \<le> now + ms_per_day
       \<and> (r + tz) mod ms_per_day = h * ms_per_hour + m * ms_per_minute"
proof -
  let ?d = "(now + tz) mod ms_per_day"
  let ?o = "h * ms_per_hour + m * ms_per_minute"
  have d: "0 \<le> ?d" "?d < ms_per_day" by (simp_all add: ms_per_day_def)
  have o: "0 \<le> ?o" "?o < ms_per_day"
    using assms(1-4) by (simp_all add: ms_per_day_def ms_per_hour_def ms_per_minute_def)
  have t: "t = now - ?d + ?o"
    by (simp add: t_def setHours_def local_midnight_def)
  have m0: "(now - ?d + tz) mod ms_per_day = 0"
    by (metis add.commute add_diff_eq minus_mod_eq_mult_div mod_mult_self1_is_0)
  have tm: "(t + tz) mod ms_per_day = ?o"
  proof -
    have "t + tz = (now - ?d + tz) + ?o" by (simp add: t)
    then have "(t + tz) mod ms_per_day = ?o mod ms_per_day"
      by (metis m0 add.left_neutral mod_add_left_eq)
    then show ?thesis using o by simp
  qed
  have "t + ms_per_day + tz = (t + tz) + ms_per_day" by simp
  then have tm': "(t + ms_per_day + tz) mod ms_per_day = ?o"
    using tm by (metis mod_add_self2)
  have bounds: "now < r \<and> r \<le> now + ms_per_day"
  proof (cases "t \<le> now")
    case True
    then have "r = now - ?d + ?o + ms_per_day" by (simp add: r_def t)
    with True d o show ?thesis unfolding t by linarith
  next
    case False
    then have "r = now - ?d + ?o" by (simp add: r_def t)
    with False d o show ?thesis unfolding t by linarith
  qed
  have "(r + tz) mod ms_per_day = ?o"
    using tm tm' by (simp add: r_def)
  with bounds show ?thesis by simp
qed

text \<open>
  At 23:58 (the instant 1700006280000, local time UTC): \<open>23:59\<close> is later the same day
  and \<open>00:01\<close> the next day; an epoch value is accepted when it is after now.
\<close>

lemma clock_examples:
  "parseScheduleTime 1700006280000 0 (TStr ''23:59'') = Inr 1700006340000"
  "parseScheduleTime 1700006280000 0 (TStr ''00:01'') = Inr 1700006460000"
  "parseScheduleTime 1700006280000 0 (TStr ''1700006280001'') = Inr 1700006280001"
  "parseScheduleTime 1700006280000 0 (TStr ''1700006280000'') = Inl Timestamp_in_past"
  "parseScheduleTime 1700006280000 0 (TStr ''soon'') = Inl Invalid_format"
  by code_simp+

text \<open>
  Claim C6, as stated: a start request while the session is scheduled fails with the
  busy error and changes nothing. It does not: after a schedule request has put the
  initial session in the state SCHEDULED, a start request succeeds, the session is
  running and the schedule is cleared.
\<close>

theorem start_while_scheduled_accepted:
  "getStatusString
     (snd (schedule_bot 1700000000000 0 (Some ''t1'') (Some 5) (Some (TStr ''23:59''))
             initial_session)) = SCHEDULED
   \<and> fst (start_bot 1700000001000 (Some ''t2'') (Some 3)
       (snd (schedule_bot 1700000000000 0 (Some ''t1'') (Some 5) (Some (TStr ''23:59''))
               initial_session))) = Success
   \<and> isProcessing (snd (start_bot 1700000001000 (Some ''t2'') (Some 3)
       (snd (schedule_bot 1700000000000 0 (Some ''t1'') (Some 5) (Some (TStr ''23:59''))
               initial_session))))
   \<and> scheduledTime (snd (start_bot 1700000001000 (Some ''t2'') (Some 3)
       (snd (schedule_bot 1700000000000 0 (Some ''t1'') (Some 5) (Some (TStr ''23:59''))
               initial_session)))) = None"
  by code_simp

text \<open>
  Claim C6, amended: while the session is running, a start request and a schedule
  request fail with the busy error (status 400) and leave the whole state as it was,
  whatever the request holds. While the session is only scheduled, a start request that
  holds a credential and a number of rounds is accepted: it stores the credential,
  clears the schedule, resets the statistics and begins the run.
\<close>

theorem busy_while_running:
  "(getStatusString s = RUNNING \<longrightarrow>
      start_bot now token rounds s = (Failure 400 Already_running, s)
      \<and> schedule_bot now tz token rounds time s = (Failure 400 Already_running, s))
   \<and> (getStatusString s = SCHEDULED \<and> \<not> falsy token \<and> \<not> num_falsy rounds \<longrightarrow>
      start_bot now' token rounds s
        = (Success,
           s\<lparr>authToken := the token, isProcessing := True, scheduledTime := None,
             currentStats := resetStats now', runs := runs s @ [the rounds]\<rparr>))"
  by (auto simp add: getStatusString_def start_bot_def schedule_bot_def split: if_splits)

theorem busy_while_running_witness:
  "getStatusString (snd (start_bot 1700000000000 (Some ''t1'') (Some 5) initial_session)) = RUNNING
   \<and> fst (start_bot 1700000001000 (Some ''t2'') (Some 3)
       (snd (start_bot 1700000000000 (Some ''t1'') (Some 5) initial_session)))
     = Failure 400 Already_running
   \<and> fst (schedule_bot 1700000001000 0 (Some ''t2'') (Some 3) (Some (TStr ''23:59''))
       (snd (start_bot 1700000000000 (Some ''t1'') (Some 5) initial_session)))
     = Failure 400 Already_running
   \<and> getStatusString
       (snd (schedule_bot 1700000000000 0 (Some ''t1'') (Some 5) (Some (TStr ''23:59''))
               initial_session)) = SCHEDULED
   \<and> fst (start_bot 1700000001000 (Some ''t2'') (Some 3)
       (snd (schedule_bot 1700000000000 0 (Some ''t1'') (Some 5) (Some (TStr ''23:59''))
               initial_session))) = Success
   \<and> scheduledTime (snd (start_bot 1700000001000 (Some ''t2'') (Some 3)
       (snd (schedule_bot 1700000000000 0 (Some ''t1'') (Some 5) (Some (TStr ''23:59''))
               initial_session)))) = None
   \<and> authToken (snd (start_bot 1700000001000 (Some ''t2'') (Some 3)
       (snd (schedule_bot 1700000000000 0 (Some ''t1'') (Some 5) (Some (TStr ''23:59''))
               initial_session)))) = ''t2''"
proof -
  let ?r = "snd (start_bot 1700000000000 (Some ''t1'') (Some 5) initial_session)"
  let ?s = "snd (schedule_bot 1700000000000 0 (Some ''t1'') (Some 5) (Some (TStr ''23:59''))
               initial_session)"
  have hr: "getStatusString ?r = RUNNING"
    by (simp add: getStatusString_def start_bot_def initial_session_def falsy_def)
  have hs: "getStatusString ?s = SCHEDULED" by code_simp
  have ht: "\<not> falsy (Some ''t2'') \<and> \<not> num_falsy (Some 3)" by (simp add: falsy_def)
  have running: "start_bot 1700000001000 (Some ''t2'') (Some 3) ?r = (Failure 400 Already_running, ?r)
      \<and> schedule_bot 1700000001000 0 (Some ''t2'') (Some 3) (Some (TStr ''23:59'')) ?r
          = (Failure 400 Already_running, ?r)"
    using hr busy_while_running [of ?r 1700000001000 "Some ''t2''" "Some 3" 0
        "Some (TStr ''23:59'')"]
    by blast
  have scheduled: "start_bot 1700000001000 (Some ''t2'') (Some 3) ?s
      = (Success,
         ?s\<lparr>authToken := the (Some ''t2''), isProcessing := True, scheduledTime := None,
            currentStats := resetStats 1700000001000, runs := runs ?s @ [the (Some 3)]\<rparr>)"
    using hs ht busy_while_running [of ?s _ "Some ''t2''" "Some 3" _ _ 1700000001000]
    by blast
  show ?thesis
    using hr hs running scheduled by simp
qed

text \<open>
  Claim C7. A schedule request whose time is in no accepted format is a validation error
  and should change nothing. On the initial session with the credential \<open>old\<close>, the
  request with credential \<open>new\<close>, 5 rounds and the time \<open>soon\<close> is answered with the format
  error, and the stored credential is \<open>new\<close> afterwards: the handler stores the credential
  before it parses the time.
\<close>

theorem invalid_time_overwrites_credential:
  "schedule_bot 1700000000000 0 (Some ''new'') (Some 5) (Some (TStr ''soon''))
     (initial_session\<lparr>authToken := ''old''\<rparr>)
   = (Failure 500 (Time_error Invalid_format), initial_session\<lparr>authToken := ''new''\<rparr>)"
proof -
  have "parseScheduleTime 1700000000000 0 (TStr ''soon'') = Inl Invalid_format"
    by code_simp
  then show ?thesis
    by (simp add: schedule_bot_def initial_session_def falsy_def)
qed

text \<open>
  Claim C10. A string that is not a time of day, such as \<open>99:99\<close>, should be rejected.
  It is accepted: at the instant 1700000000000 (22:13:20 UTC) it resolves to
  1700282340000, which is 04:39 UTC more than three days later, since hours and minutes
  are only checked to be digits and then carried over by the date arithmetic.
\<close>

theorem out_of_range_clock_time_accepted:
  "parseScheduleTime 1700000000000 0 (TStr ''99:99'') = Inr 1700282340000"
  by code_simp

section \<open>Properties of the run\<close>

lemma poll_left:
  "\<not> (waitingForHumanIntervention w \<and> isProcessing w) \<Longrightarrow>
     poll bs w = (True, w\<lparr>arrivals := bs\<rparr>)"
  by (cases bs) auto

text \<open>
  When the stop request is the only one handled before the wait for the human next wakes
  up, the wait returns null, the pending question is gone, nothing is submitted and the
  round returns false.
\<close>

lemma stop_during_wait_aborts_round:
  assumes "isProcessing w"
    and "arrivals w = [] # [Stop_bot] # rest"
    and "questions w = Inr qd # later"
    and "fst (findBestAnswer (questionDB w) (questionText qd)
               (case songTitle qd of None \<Rightarrow> [] | Some t \<Rightarrow> t) (options qd))
           = Inr (None, Human_needed)"
  shows "fst (play_question r q w) = Round_aborted
       \<and> pendingQuestion (snd (play_question r q w)) = None
       \<and> \<not> isProcessing (snd (play_question r q w))
       \<and> submitted (snd (play_question r q w)) = submitted w
       \<and> fst (question_loop (Suc k) r q w) = Returned False"
proof -
  obtain opts' where fb: "findBestAnswer (questionDB w) (questionText qd)
               (case songTitle qd of None \<Rightarrow> [] | Some t \<Rightarrow> t) (options qd)
           = (Inr (None, Human_needed), opts')"
    using assms(4) by (metis prod.collapse)
  have pq: "fst (play_question r q w) = Round_aborted
       \<and> pendingQuestion (snd (play_question r q w)) = None
       \<and> \<not> isProcessing (snd (play_question r q w))
       \<and> submitted (snd (play_question r q w)) = submitted w"
    using assms(1-3) fb
    by (simp add: play_question_def suspend_def handle_all_def waitForHumanAnswer_def
        stop_bot_def Let_def poll_left)
  obtain w' where w': "play_question r q w = (Round_aborted, w')"
    using pq by (metis prod.collapse)
  have "fst (question_loop (Suc k) r q w) = Returned False"
    using assms(1) w' by simp
  with pq show ?thesis by simp
qed

text \<open>
  Claim C8. A stop request while the round waits for the human should make the round
  return false. In \<open>restart_scenario\<close> the stop request is followed, before the wait
  wakes up, by a start request: the wait then finds \<^verbatim>\<open>isProcessing\<close> set and reads the
  answer of a pending question that is null. The TypeError is caught as an error of the
  question (nothing is submitted for it), and the round goes on: it fetches the next
  question, submits \<open>Bob\<close> and returns true.
\<close>

theorem restart_during_wait_keeps_round_running:
  "fst (play_question 1 1 restart_scenario) = Next_slot
   \<and> pendingQuestion (snd (play_question 1 1 restart_scenario)) = None
   \<and> submitted (snd (play_question 1 1 restart_scenario)) = []
   \<and> errors (currentStats (snd (play_question 1 1 restart_scenario))) = 1
   \<and> fst (playRound 1 restart_scenario) = Returned True
   \<and> fetched (snd (playRound 1 restart_scenario)) = 2
   \<and> submitted (snd (playRound 1 restart_scenario)) = [Some ''Bob'']"
  by code_simp

text \<open>
  Claim C9, as stated: the shortfall is recorded as an error in the statistics. It is
  not: after the run of 5 rounds on 3 credits the error counter is 0 and
  the statistics are as the start request reset them, the same as after a run with 5
  credits that was stopped while the credits were queried.
\<close>

theorem shortfall_not_in_statistics:
  "errors (currentStats (snd (startQuizBot 5 shortfall_scenario))) = 0
   \<and> currentStats (snd (startQuizBot 5 shortfall_scenario)) = resetStats 1700000000000
   \<and> currentStats (snd (startQuizBot 5 shortfall_scenario))
       = currentStats (snd (startQuizBot 5 stopped_scenario))"
  by code_simp

text \<open>
  Claim C9, amended: when the credits that \<^verbatim>\<open>getUserInfo\<close> reports are fewer than the
  rounds asked for, the run returns (it raises nothing and does not stay suspended) with
  \<^verbatim>\<open>isProcessing\<close> cleared, no question fetched and no answer submitted, and it leaves
  the statistics as they were after the requests handled while the credits were queried:
  the shortfall is only logged.
\<close>

theorem shortfall_aborts_run:
  assumes "user_infos w = Inr playTimes # later"
    and "(case playTimes of None \<Rightarrow> 0 | Some n \<Rightarrow> n) < roundsToPlay"
  shows "fst (startQuizBot roundsToPlay w) = Returned ()
       \<and> isProcessing (snd (startQuizBot roundsToPlay w)) = False
       \<and> fetched (snd (startQuizBot roundsToPlay w)) = fetched w
       \<and> submitted (snd (startQuizBot roundsToPlay w)) = submitted w
       \<and> currentStats (snd (startQuizBot roundsToPlay w)) = currentStats (suspend w)"
  using assms
  by (simp add: startQuizBot_def startQuizBot_body_def Let_def suspend_keeps)

theorem shortfall_aborts_run_witness:
  "user_infos shortfall_scenario = [Inr (Some 3)]
   \<and> fst (startQuizBot 5 shortfall_scenario) = Returned ()
   \<and> getStatusString (snd (startQuizBot 5 shortfall_scenario)) = READY
   \<and> fetched (snd (startQuizBot 5 shortfall_scenario)) = 0"
proof -
  have h1: "user_infos shortfall_scenario = Inr (Some 3) # []" by code_simp
  have h2: "(case Some (3::int) of None \<Rightarrow> 0 | Some n \<Rightarrow> n) < 5" by simp
  have f: "fetched shortfall_scenario = 0" by code_simp
  have r: "getStatusString (snd (startQuizBot 5 shortfall_scenario)) = READY" by code_simp
  show ?thesis
    using h1 f r shortfall_aborts_run [OF h1 h2] by simp
qed

end
